theory Spec2Isabelle
  imports Complex_Main "HOL-Library.AList"
begin

section \<open>Chaos Meter: score engine, simulation mode and attack sequencer\<close>

text \<open>
  A shallow embedding of the dashboard script (the second document of
  \<^verbatim>\<open>src/blog_data.js\<close>, lines 61 to 750).

  JavaScript numbers are modelled by \<^typ>\<open>real\<close>: sums, products and quotients are
  exact, the rounding of IEEE doubles is not modelled. The special values \<^verbatim>\<open>NaN\<close>
  and \<^verbatim>\<open>Infinity\<close> arise in this script only from a division by \<^verbatim>\<open>f.max = 0\<close>;
  HOL's \<open>x / 0 = 0\<close> is not what JavaScript computes there, so every theorem about
  a quotient \<^verbatim>\<open>value / max\<close> carries the hypothesis that \<^verbatim>\<open>max\<close> is not zero.
  \<^verbatim>\<open>undefined\<close> is \<open>None\<close>. A JavaScript object used as a dictionary is an
  association list in insertion order, which is the order of \<^verbatim>\<open>Object.keys\<close>; each
  key occurs once, which the theorems that need it assume as \<open>distinct (map fst cf)\<close>.
  A property read also finds the names every object inherits from
  \<^verbatim>\<open>Object.prototype\<close>. This is modelled for \<^verbatim>\<open>countryCoords\<close>, whose keys come from
  the snapshot's events; the keys of the factor objects are those of \<^verbatim>\<open>factorMeta\<close>,
  none of which is such a name.
\<close>

subsection \<open>Data model\<close>

type_synonym number = real
type_synonym key = string

text \<open>
  A factor object, \<^verbatim>\<open>{...factorMeta[key], ...liveData.chaosFactors[key]}\<close>. The
  fields that are only rendered (\<^verbatim>\<open>name\<close>, \<^verbatim>\<open>icon\<close>, \<^verbatim>\<open>unit\<close>, \<^verbatim>\<open>desc\<close>)
  are left out. \<^verbatim>\<open>value\<close> and \<^verbatim>\<open>max\<close> are renamed, the first is a keyword and the
  second a constant of HOL.
\<close>

record factor =
  weight :: "number option"
  value_f :: "number option"
  max_f :: number
  reverse :: bool

record attack =
  from_a :: string
  to_a :: string
  type_a :: string

text \<open>The fields of \<^verbatim>\<open>data.json\<close> that the modelled functions read.\<close>

record snapshot =
  chaosIndex :: "number option"
  attacks :: "attack list option"

subsection \<open>Number formatting\<close>

fun digits :: "nat \<Rightarrow> string" where
  "digits n =
     (if n < 10 then [''0123456789'' ! n]
      else digits (n div 10) @ [''0123456789'' ! (n mod 10)])"

declare digits.simps [simp del]

text \<open>
  \<^verbatim>\<open>x.toFixed(1)\<close> for a finite \<open>x\<close> below \<open>10^21\<close> in absolute value (above,
  JavaScript switches to exponent notation): the sign is split off, then the
  integer \<open>n\<close> with \<open>n / 10\<close> nearest to \<open>x\<close> is chosen, the larger one on a tie.
\<close>

definition toFixed1 :: "number \<Rightarrow> string" where
  "toFixed1 x =
     (let n = nat \<lfloor>\<bar>x\<bar> * 10 + 1 / 2\<rfloor>
      in (if x < 0 then ''-'' else '''') @ digits (n div 10) @ ''.'' @ digits (n mod 10))"

subsection \<open>Composite score\<close>

text \<open>\<^verbatim>\<open>f.weight || 1\<close>: a missing or zero weight is falsy and replaced by 1.\<close>

definition weight_or_1 :: "factor \<Rightarrow> number" where
  "weight_or_1 f = (case weight f of None \<Rightarrow> 1 | Some w \<Rightarrow> if w = 0 then 1 else w)"

text \<open>
  The body of the \<^verbatim>\<open>forEach\<close> of \<^verbatim>\<open>updateScore\<close> (lines 213 to 219), on the
  accumulators \<open>(t, w)\<close>.
\<close>

fun score_step :: "number \<times> number \<Rightarrow> factor \<Rightarrow> number \<times> number" where
  "score_step (t, w) f =
     (case value_f f of
        None \<Rightarrow> (t, w)
      | Some v \<Rightarrow>
          (let n = v / max_f f;
               n = (if reverse f then 1 - n else n)
           in (t + n * weight_or_1 f, w + weight_or_1 f)))"

text \<open>Lines 212 to 221: the locally computed score, before formatting.\<close>

definition localScore :: "(key \<times> factor) list \<Rightarrow> number" where
  "localScore cf =
     (case foldl score_step (0, 0) (map snd cf) of
        (t, w) \<Rightarrow> if w > 0 then (t / w) * 100 else 0)"

text \<open>
  The quotient of line 221 is the one division of this function whose divisor is
  zero for a mapping of the data model (one without a defined value), and HOL's
  \<open>0 / 0 = 0\<close> would hide what the guard \<^verbatim>\<open>w > 0\<close> is for. So the same lines are
  given once more with the result as a JavaScript number: \<open>jsDiv a b\<close> is \<^verbatim>\<open>a / b\<close>
  for finite \<open>a\<close> and \<open>b\<close> (a zero divisor is \<open>+0\<close> here, the sum starts from 0), and
  \<open>times100\<close> is \<^verbatim>\<open>* 100\<close>.
\<close>

datatype jsnum = Num number | NaN | PosInfinity | NegInfinity

definition jsDiv :: "number \<Rightarrow> number \<Rightarrow> jsnum" where
  "jsDiv a b =
     (if b \<noteq> 0 then Num (a / b)
      else if a = 0 then NaN
      else if 0 < a then PosInfinity
      else NegInfinity)"

fun times100 :: "jsnum \<Rightarrow> jsnum" where
  "times100 (Num q) = Num (q * 100)"
| "times100 NaN = NaN"
| "times100 PosInfinity = PosInfinity"
| "times100 NegInfinity = NegInfinity"

definition localScoreJS :: "(key \<times> factor) list \<Rightarrow> jsnum" where
  "localScoreJS cf =
     (case foldl score_step (0, 0) (map snd cf) of
        (t, w) \<Rightarrow> if w > 0 then times100 (jsDiv t w) else Num 0)"

text \<open>
  The aggregate in the specification's words, with nothing taken from the
  definitions above: the factors with a defined value, the weight of one of them
  (1 when the weight is missing or zero), its normalized ratio, the two sums, and
  100 times the weighted mean of the ratios, 0 when there is no such factor.
\<close>

definition spec_weight :: "factor \<Rightarrow> number" where
  "spec_weight f = (if weight f = None \<or> weight f = Some 0 then 1 else the (weight f))"

definition eligible :: "(key \<times> factor) list \<Rightarrow> factor list" where
  "eligible cf = filter (\<lambda>f. value_f f \<noteq> None) (map snd cf)"

definition normalized :: "factor \<Rightarrow> number" where
  "normalized f =
     (case value_f f of
        None \<Rightarrow> 0
      | Some v \<Rightarrow> if reverse f then 1 - v / max_f f else v / max_f f)"

definition weightedSum :: "(key \<times> factor) list \<Rightarrow> number" where
  "weightedSum cf = (\<Sum>f\<leftarrow>eligible cf. normalized f * spec_weight f)"

definition weightSum :: "(key \<times> factor) list \<Rightarrow> number" where
  "weightSum cf = (\<Sum>f\<leftarrow>eligible cf. spec_weight f)"

definition aggregate_spec :: "(key \<times> factor) list \<Rightarrow> number" where
  "aggregate_spec cf =
     (if eligible cf = [] then 0 else 100 * weightedSum cf / weightSum cf)"

subsection \<open>Severity classifier\<close>

text \<open>
  \<^verbatim>\<open>getSeverity(val, max, rev)\<close>, lines 173 to 180; \<open>maxv\<close> and \<open>revf\<close> stand for
  the parameters \<^verbatim>\<open>max\<close> and \<^verbatim>\<open>rev\<close>, which are constants of HOL.
\<close>

definition getSeverity :: "number \<Rightarrow> number \<Rightarrow> bool \<Rightarrow> string" where
  "getSeverity val maxv revf =
     (let n = val / maxv;
          n = (if revf then 1 - n else n)
      in if n \<ge> 0.75 then ''severity-critical''
         else if n \<ge> 0.5 then ''severity-high''
         else if n \<ge> 0.25 then ''severity-medium''
         else ''severity-low'')"

text \<open>The ratio the specification calls \<open>n\<close>.\<close>

definition ratio :: "number \<Rightarrow> number \<Rightarrow> bool \<Rightarrow> number" where
  "ratio val maxv revf = (if revf then 1 - val / maxv else val / maxv)"

subsection \<open>The page state\<close>

type_synonym coord = "number \<times> number"

text \<open>
  What \<^verbatim>\<open>countryCoords[code]\<close> can be when it is not \<^verbatim>\<open>undefined\<close>: an entry of the
  table, or the value of a property that every object inherits from
  \<^verbatim>\<open>Object.prototype\<close> (a function or an object: truthy, and without \<^verbatim>\<open>x\<close> and
  \<^verbatim>\<open>y\<close>). \<open>x_of\<close> and \<open>y_of\<close> read \<^verbatim>\<open>.x\<close> and \<^verbatim>\<open>.y\<close>.
\<close>

datatype looked_up = Entry coord | Inherited

fun x_of :: "looked_up \<Rightarrow> number option" where
  "x_of (Entry c) = Some (fst c)"
| "x_of Inherited = None"

fun y_of :: "looked_up \<Rightarrow> number option" where
  "y_of (Entry c) = Some (snd c)"
| "y_of Inherited = None"

text \<open>
  A point of the path data; a component is \<open>None\<close> where the script writes
  \<^verbatim>\<open>undefined\<close> or \<^verbatim>\<open>NaN\<close>.
\<close>

type_synonym point = "number option \<times> number option"

text \<open>
  What \<^verbatim>\<open>animateAttack\<close> appends to the \<^verbatim>\<open>#attackOverlay\<close> element: the glow
  filter (named by its \<^verbatim>\<open>Date.now()\<close> stamp; the \<^verbatim>\<open>defs\<close> element around it is not
  modelled), the path \<^verbatim>\<open>M from Q mid to\<close> with its stroke colour, and circles with
  radius, fill and opacity attribute.
\<close>

datatype svg =
    Filter nat
  | Path point point point string
  | Circle number string "number option"

text \<open>
  The variables the closure \<^verbatim>\<open>animate\<close> of one attack captures and reads (lines
  350 to 398), each under its name with the suffix \<open>_v\<close>.
\<close>

record animation =
  toCoord_v :: looked_up
  color_v :: string
  pathLength_v :: number
  duration_v :: number
  startTime_v :: number

text \<open>
  The module's global variables (lines 67 to 72) and the parts of the document
  the modelled functions write: the text of \<^verbatim>\<open>#mainScore\<close> and the children of
  \<^verbatim>\<open>#attackOverlay\<close> (\<open>None\<close> when \<^verbatim>\<open>getElementById\<close> finds no such element),
  and the \<^verbatim>\<open>animate\<close> callbacks handed to \<^verbatim>\<open>requestAnimationFrame\<close>. A timer
  of \<^verbatim>\<open>realTimeIntervals\<close> is the name of its callback and its period;
  \<^verbatim>\<open>attackIndex\<close> is a natural number (one increment per 400 ms tick keeps the
  counter far below \<open>2\<^sup>5\<^sup>3\<close>, where a double would stop counting). The
  elements the script uses without testing for them (\<^verbatim>\<open>#simulateModal\<close>, the
  \<^verbatim>\<open>value-\<close> labels of the sliders) are taken to be in the page, and what is only
  rendered (tiles, tickers, log lines, the impact effect) is not modelled.
\<close>

record dashboard =
  chaosFactors :: "(key \<times> factor) list"
  liveData :: "snapshot option"
  isSimulationMode :: bool
  simulationValues :: "(key \<times> number option) list"
  realTimeIntervals :: "(string \<times> nat) list"
  attackIndex :: nat
  mainScore :: "string option"
  attackOverlay :: "svg list option"
  frameCallbacks :: "animation list"

subsection \<open>Displaying the score\<close>

text \<open>
  \<^verbatim>\<open>updateScore\<close>, lines 201 to 223. The test \<^verbatim>\<open>liveData && liveData.chaosIndex\<close>
  is a truthiness test: a missing index and the number 0 both fail it.
\<close>

definition updateScore :: "dashboard \<Rightarrow> dashboard" where
  "updateScore s =
     (case mainScore s of
        None \<Rightarrow> s
      | Some el \<Rightarrow>
          (case (case liveData s of None \<Rightarrow> None | Some ld \<Rightarrow> chaosIndex ld) of
             Some c \<Rightarrow>
               if c \<noteq> 0 then s\<lparr>mainScore := Some (toFixed1 c)\<rparr>
               else s\<lparr>mainScore := Some (toFixed1 (localScore (chaosFactors s)))\<rparr>
           | None \<Rightarrow> s\<lparr>mainScore := Some (toFixed1 (localScore (chaosFactors s)))\<rparr>))"

subsection \<open>Fallback perturbation\<close>

text \<open>
  \<^verbatim>\<open>manipulateData\<close>, lines 144 to 153. \<open>rnd k\<close> is what \<^verbatim>\<open>Math.random()\<close> returns
  when the loop is at key \<open>k\<close>; it is called once for each key with a defined value.
\<close>

definition perturb :: "number \<Rightarrow> factor \<Rightarrow> factor" where
  "perturb r f =
     (case value_f f of
        None \<Rightarrow> f
      | Some v \<Rightarrow>
          (let delta = (r - 0.5) * (max_f f * 0.02)
           in f\<lparr>value_f := Some (max 0 (min (max_f f) (v + delta)))\<rparr>))"

definition manipulateData :: "(key \<Rightarrow> number) \<Rightarrow> (key \<times> factor) list \<Rightarrow> (key \<times> factor) list" where
  "manipulateData rnd cf = map (\<lambda>(k, f). (k, perturb (rnd k) f)) cf"

text \<open>Successive applications, each with its own random draws.\<close>

fun manipulateTimes :: "(key \<Rightarrow> number) list \<Rightarrow> (key \<times> factor) list \<Rightarrow> (key \<times> factor) list" where
  "manipulateTimes [] cf = cf"
| "manipulateTimes (rnd # rnds) cf = manipulateTimes rnds (manipulateData rnd cf)"

text \<open>The data model's invariant on a factor's value.\<close>

definition in_range :: "factor \<Rightarrow> bool" where
  "in_range f = (case value_f f of None \<Rightarrow> True | Some v \<Rightarrow> 0 \<le> v \<and> v \<le> max_f f)"

subsection \<open>Contribution of a factor\<close>

text \<open>
  The loop of \<^verbatim>\<open>showInfoCard\<close> (lines 560 to 569) on the accumulators
  \<open>(totalWeightedSum, myWeightedVal)\<close>. The test \<^verbatim>\<open>factor === f\<close> compares object
  identities; \<open>f\<close> is the object stored under \<open>key\<close> and every key holds an
  object of its own, so the test is the equality of the keys.
\<close>

fun impact_step :: "key \<Rightarrow> number \<times> number \<Rightarrow> key \<times> factor \<Rightarrow> number \<times> number" where
  "impact_step key (totalWeightedSum, myWeightedVal) (k, factor) =
     (case value_f factor of
        None \<Rightarrow> (totalWeightedSum, myWeightedVal)
      | Some v \<Rightarrow>
          (let n = v / max_f factor;
               n = (if reverse factor then 1 - n else n);
               wv = n * weight_or_1 factor
           in (totalWeightedSum + wv, if k = key then wv else myWeightedVal)))"

text \<open>
  \<^verbatim>\<open>impactPercent\<close> of line 571, \<open>None\<close> when \<^verbatim>\<open>chaosFactors[key]\<close> is undefined and
  the function returns before computing anything.
\<close>

definition impactPercent :: "(key \<times> factor) list \<Rightarrow> key \<Rightarrow> number option" where
  "impactPercent cf key =
     (case map_of cf key of
        None \<Rightarrow> None
      | Some f \<Rightarrow>
          (case foldl (impact_step key) (0, 0) cf of
             (totalWeightedSum, myWeightedVal) \<Rightarrow>
               Some (if totalWeightedSum > 0 then (myWeightedVal / totalWeightedSum) * 100
                     else 0)))"

text \<open>
  The specification's words: a factor's weighted term, the total weighted sum, and
  the percentages of the factors with a defined value, in the order of the keys.
\<close>

definition weightedTerm :: "factor \<Rightarrow> number" where
  "weightedTerm f = normalized f * weight_or_1 f"

definition totalWeighted :: "(key \<times> factor) list \<Rightarrow> number" where
  "totalWeighted cf = (\<Sum>f\<leftarrow>eligible cf. weightedTerm f)"

definition eligibleEntries :: "(key \<times> factor) list \<Rightarrow> (key \<times> factor) list" where
  "eligibleEntries cf = filter (\<lambda>(k, f). value_f f \<noteq> None) cf"

definition contributions :: "(key \<times> factor) list \<Rightarrow> number list" where
  "contributions cf =
     map (\<lambda>(k, f). case impactPercent cf k of None \<Rightarrow> 0 | Some p \<Rightarrow> p) (eligibleEntries cf)"

subsection \<open>Simulation mode\<close>

text \<open>Reading \<^verbatim>\<open>obj[k]\<close>: a missing property reads as \<^verbatim>\<open>undefined\<close>.\<close>

definition getProp :: "(key \<times> 'a option) list \<Rightarrow> key \<Rightarrow> 'a option" where
  "getProp obj k = (case map_of obj k of None \<Rightarrow> None | Some v \<Rightarrow> v)"

text \<open>
  \<^verbatim>\<open>Object.keys(chaosFactors).forEach(k => { chaosFactors[k].value = g(k) })\<close>,
  the loop shared by \<^verbatim>\<open>updateSimulationScore\<close> and \<^verbatim>\<open>exitSimulation\<close>.
\<close>

definition setValues :: "(key \<Rightarrow> number option) \<Rightarrow> (key \<times> factor) list \<Rightarrow> (key \<times> factor) list" where
  "setValues g cf = map (\<lambda>(k, f). (k, f\<lparr>value_f := g k\<rparr>)) cf"

definition pauseRealTimeUpdates :: "dashboard \<Rightarrow> dashboard" where
  "pauseRealTimeUpdates s = s\<lparr>realTimeIntervals := []\<rparr>"

definition resumeRealTimeUpdates :: "dashboard \<Rightarrow> dashboard" where
  "resumeRealTimeUpdates s =
     s\<lparr>realTimeIntervals := realTimeIntervals s @
        [(''animateAttack'', 400), (''manipulateData'', 800),
         (''showNextLog'', 2000), (''generateTicker'', 5000)]\<rparr>"

text \<open>
  \<^verbatim>\<open>openSimulationModal\<close>, lines 600 to 638, without the slider markup and the
  log line: the flag, the timers, and the loop under the comment
  \<^verbatim>\<open>// Save current values\<close>, which stores every factor's value in
  \<^verbatim>\<open>simulationValues\<close>.
\<close>

definition openSimulationModal :: "dashboard \<Rightarrow> dashboard" where
  "openSimulationModal s =
     (let s1 = pauseRealTimeUpdates (s\<lparr>isSimulationMode := True\<rparr>)
      in s1\<lparr>simulationValues :=
              foldl (\<lambda>sv (k, f). AList.update k (value_f f) sv)
                (simulationValues s1) (chaosFactors s1)\<rparr>)"

text \<open>\<^verbatim>\<open>updateSimulationScore\<close>, lines 640 to 650.\<close>

definition updateSimulationScore :: "dashboard \<Rightarrow> dashboard" where
  "updateSimulationScore s =
     (let original = foldl (\<lambda>orig (k, f). AList.update k (value_f f) orig) [] (chaosFactors s);
          s1 = s\<lparr>chaosFactors := setValues (getProp (simulationValues s)) (chaosFactors s)\<rparr>;
          s2 = updateScore s1
      in s2\<lparr>chaosFactors := setValues (getProp original) (chaosFactors s2)\<rparr>)"

text \<open>
  The \<^verbatim>\<open>input\<close> listener of a slider (lines 626 to 632): the slider of \<open>key\<close> is
  moved to \<open>v\<close>.
\<close>

definition sliderInput :: "key \<Rightarrow> number \<Rightarrow> dashboard \<Rightarrow> dashboard" where
  "sliderInput key v s =
     updateSimulationScore (s\<lparr>simulationValues := AList.update key (Some v) (simulationValues s)\<rparr>)"

text \<open>
  \<^verbatim>\<open>exitSimulation\<close>, lines 656 to 666 (\<^verbatim>\<open>generateTiles\<close>, \<^verbatim>\<open>closeSimulationModal\<close>
  and \<^verbatim>\<open>addLog\<close> only render).
\<close>

definition exitSimulation :: "dashboard \<Rightarrow> dashboard" where
  "exitSimulation s =
     (let s1 = s\<lparr>chaosFactors := setValues (getProp (simulationValues s)) (chaosFactors s)\<rparr>;
          s2 = resumeRealTimeUpdates (s1\<lparr>isSimulationMode := False\<rparr>)
      in updateScore s2)"

text \<open>
  \<^verbatim>\<open>applySimulation\<close>, lines 668 to 676. The loop runs over the keys of
  \<^verbatim>\<open>simulationValues\<close>; \<^verbatim>\<open>chaosFactors[k].value = ...\<close> raises a TypeError when
  \<^verbatim>\<open>chaosFactors\<close> has no such key.
\<close>

datatype error = TypeError

definition applySimulation :: "dashboard \<Rightarrow> error + dashboard" where
  "applySimulation s =
     (if list_all (\<lambda>k. map_of (chaosFactors s) k \<noteq> None) (map fst (simulationValues s))
      then Inr (updateScore (s\<lparr>chaosFactors :=
                 map (\<lambda>(k, f). case map_of (simulationValues s) k of
                                  None \<Rightarrow> (k, f)
                                | Some v \<Rightarrow> (k, f\<lparr>value_f := v\<rparr>))
                   (chaosFactors s)\<rparr>))
      else Inl TypeError)"

subsection \<open>Attack map\<close>

text \<open>The table \<^verbatim>\<open>countryCoords\<close>, lines 75 to 91.\<close>

definition countryCoords :: "(string \<times> coord) list" where
  "countryCoords =
     [(''CN'', (78, 35)), (''RU'', (65, 25)), (''US'', (20, 38)),
      (''KP'', (81, 34)), (''IR'', (60, 40)), (''BR'', (30, 62)),
      (''IN'', (70, 45)), (''VN'', (77, 48)), (''TR'', (55, 36)),
      (''UA'', (55, 28)), (''ID'', (80, 58)), (''PK'', (67, 42)),
      (''NG'', (48, 52)), (''RO'', (53, 32)), (''PH'', (82, 50)),
      (''TH'', (75, 48)), (''MY'', (76, 54)), (''MX'', (15, 45)),
      (''AR'', (28, 75)), (''EG'', (54, 43)),
      (''GB'', (47, 28)), (''DE'', (50, 28)), (''FR'', (48, 32)),
      (''JP'', (85, 35)), (''AU'', (88, 72)), (''CA'', (18, 30)),
      (''KR'', (82, 37)), (''NL'', (49, 27)), (''SG'', (77, 55)),
      (''CH'', (49, 30)), (''IT'', (51, 33)), (''ES'', (45, 35)),
      (''SE'', (52, 22)), (''BE'', (48, 28)), (''IL'', (57, 40)),
      (''AE'', (62, 44)), (''TW'', (82, 44)), (''PL'', (52, 28))]"

text \<open>
  The property names of \<^verbatim>\<open>Object.prototype\<close>, which a property read on the
  object literal \<^verbatim>\<open>countryCoords\<close> finds when the table has no such key.
\<close>

definition objectPrototypeNames :: "string list" where
  "objectPrototypeNames =
     [''constructor'', ''__proto__'', ''hasOwnProperty'', ''isPrototypeOf'',
      ''propertyIsEnumerable'', ''toLocaleString'', ''toString'', ''valueOf'',
      ''__defineGetter__'', ''__defineSetter__'', ''__lookupGetter__'', ''__lookupSetter__'']"

text \<open>\<^verbatim>\<open>countryCoords[code]\<close>, \<open>None\<close> when the read gives \<^verbatim>\<open>undefined\<close>.\<close>

definition coordOf :: "string \<Rightarrow> looked_up option" where
  "coordOf code =
     (case map_of countryCoords code of
        Some c \<Rightarrow> Some (Entry c)
      | None \<Rightarrow> if code \<in> set objectPrototypeNames then Some Inherited else None)"

text \<open>
  \<^verbatim>\<open>getAttackColor\<close>, lines 403 to 414, for a category that is not one of the
  inherited names above (for those \<^verbatim>\<open>colors[type]\<close> is the inherited value, which
  is not modelled).
\<close>

definition getAttackColor :: "string \<Rightarrow> string" where
  "getAttackColor ty =
     (case map_of
        [(''DDoS'', ''#ff6b6b''), (''Ransomware'', ''#ee5a5a''), (''Phishing'', ''#ffa94d''),
         (''Botnet'', ''#cc5de8''), (''Exploit'', ''#74c0fc''), (''Brute Force'', ''#69db7c''),
         (''SQLi'', ''#ff8787'')] ty of
        Some c \<Rightarrow> c
      | None \<Rightarrow> ''#ff6b6b'')"

text \<open>
  What one call of \<^verbatim>\<open>animateAttack\<close> reads from the browser: the two results of
  \<^verbatim>\<open>Math.random()\<close> (lines 294 and 328), \<^verbatim>\<open>Date.now()\<close>, \<^verbatim>\<open>performance.now()\<close>
  and the result of \<^verbatim>\<open>path.getTotalLength()\<close>.
\<close>

record browser =
  randomMid :: number
  randomDuration :: number
  dateNow :: nat
  performanceNow :: number
  totalLength :: number

definition trailCount :: nat where
  "trailCount = 5"

text \<open>
  \<^verbatim>\<open>animateAttack\<close>, lines 276 to 348 and 400: the event is read at the cyclic
  index, the index is incremented, and only then are the two codes looked up.
\<close>

definition animateAttack :: "browser \<Rightarrow> dashboard \<Rightarrow> dashboard" where
  "animateAttack b s =
     (case liveData s of
        None \<Rightarrow> s
      | Some ld \<Rightarrow>
          (case attacks ld of
             None \<Rightarrow> s
           | Some evs \<Rightarrow>
               if length evs = 0 then s
               else
                 (let attack = evs ! (attackIndex s mod length evs);
                      s1 = s\<lparr>attackIndex := attackIndex s + 1\<rparr>
                  in case (coordOf (from_a attack), coordOf (to_a attack)) of
                       (Some fromCoord, Some toCoord) \<Rightarrow>
                         (case attackOverlay s1 of
                            None \<Rightarrow> s1
                          | Some children \<Rightarrow>
                              (let color = getAttackColor (type_a attack);
                                   midX = (case (x_of fromCoord, x_of toCoord) of
                                             (Some x1, Some x2) \<Rightarrow> Some ((x1 + x2) / 2)
                                           | _ \<Rightarrow> None);
                                   midY = (case (y_of fromCoord, y_of toCoord) of
                                             (Some y1, Some y2) \<Rightarrow>
                                               Some (min y1 y2 - 10 - randomMid b * 5)
                                           | _ \<Rightarrow> None);
                                   path = Path (x_of fromCoord, y_of fromCoord) (midX, midY)
                                            (x_of toCoord, y_of toCoord) color;
                                   pathLength = totalLength b;
                                   duration = 1200 + randomDuration b * 400;
                                   startTime = performanceNow b;
                                   particle = Circle 0.8 color None;
                                   trails = map (\<lambda>i. Circle (0.6 - real i * 0.1) color
                                                        (Some (0.6 - real i * 0.1)))
                                              [0..<trailCount]
                               in s1\<lparr>attackOverlay :=
                                        Some (children @ [Filter (dateNow b), path, particle] @ trails),
                                      frameCallbacks := frameCallbacks s1 @
                                        [\<lparr>toCoord_v = toCoord, color_v = color,
                                          pathLength_v = pathLength,
                                          duration_v = duration,
                                          startTime_v = startTime\<rparr>]\<rparr>))
                     | _ \<Rightarrow> s1)))"

text \<open>The event the next call of \<^verbatim>\<open>animateAttack\<close> reads (line 279), if it reads one.\<close>

definition nextAttack :: "dashboard \<Rightarrow> attack option" where
  "nextAttack s =
     (case liveData s of
        None \<Rightarrow> None
      | Some ld \<Rightarrow>
          (case attacks ld of
             None \<Rightarrow> None
           | Some evs \<Rightarrow>
               if length evs = 0 then None else Some (evs ! (attackIndex s mod length evs))))"

text \<open>
  What one call of \<^verbatim>\<open>animate(currentTime)\<close> (lines 350 to 398) writes: the dash
  offset and opacity of the path, the arc lengths given to
  \<^verbatim>\<open>path.getPointAtLength\<close> for the particle and for each trail, and whether the
  traversal is over (\<^verbatim>\<open>progress < 1\<close> fails), in which case the impact effect and
  the fade-out run instead of another frame being requested.
\<close>

record frame =
  strokeDashoffset :: number
  strokeOpacity :: number
  particleAt :: number
  trailsAt :: "number list"
  finished :: bool

definition easeInOutCubic :: "number \<Rightarrow> number" where
  "easeInOutCubic progress =
     (if progress < 0.5 then 4 * progress * progress * progress
      else 1 - (- 2 * progress + 2) ^ 3 / 2)"

definition progressAt :: "animation \<Rightarrow> number \<Rightarrow> number" where
  "progressAt a currentTime = min ((currentTime - startTime_v a) / duration_v a) 1"

definition animate :: "animation \<Rightarrow> number \<Rightarrow> frame" where
  "animate a currentTime =
     (let progress = progressAt a currentTime;
          eased = easeInOutCubic progress
      in \<lparr>strokeDashoffset = pathLength_v a * (1 - eased),
          strokeOpacity = min (eased * 2) 0.7,
          particleAt = pathLength_v a * eased,
          trailsAt = map (\<lambda>i. pathLength_v a * max 0 (eased - (real i + 1) * 0.03))
                       [0..<trailCount],
          finished = (\<not> progress < 1)\<rparr>)"

subsection \<open>Concrete inputs\<close>

text \<open>The two factors of the specification's scenario.\<close>

definition scenario :: "(key \<times> factor) list" where
  "scenario =
     [(''a'', \<lparr>weight = Some 20, value_f = Some 80, max_f = 100, reverse = False\<rparr>),
      (''b'', \<lparr>weight = Some 10, value_f = Some 10, max_f = 50, reverse = True\<rparr>)]"

text \<open>
  Four factors with different ratios and weights: one weight is missing, one is
  zero, and the last factor has no value.
\<close>

definition mixedWeights :: "(key \<times> factor) list" where
  "mixedWeights =
     [(''a'', \<lparr>weight = Some 20, value_f = Some 80, max_f = 100, reverse = False\<rparr>),
      (''b'', \<lparr>weight = None, value_f = Some 10, max_f = 50, reverse = False\<rparr>),
      (''c'', \<lparr>weight = Some 0, value_f = Some 5, max_f = 10, reverse = True\<rparr>),
      (''d'', \<lparr>weight = Some 10, value_f = None, max_f = 10, reverse = False\<rparr>)]"

text \<open>A mapping in which no factor has a value.\<close>

definition noValues :: "(key \<times> factor) list" where
  "noValues = [(''d'', \<lparr>weight = Some 10, value_f = None, max_f = 10, reverse = False\<rparr>)]"

text \<open>
  A page that holds these two factors and has not fetched a snapshot, the same
  page with a snapshot whose \<^verbatim>\<open>chaosIndex\<close> is \<open>c\<close>, and the values of a page's
  factors by key.
\<close>

definition page :: dashboard where
  "page = \<lparr>chaosFactors = scenario, liveData = None, isSimulationMode = False,
            simulationValues = [], realTimeIntervals = [], attackIndex = 0,
            mainScore = Some ''--'', attackOverlay = Some [], frameCallbacks = []\<rparr>"

definition liveAt :: "number \<Rightarrow> dashboard" where
  "liveAt c = page\<lparr>liveData := Some \<lparr>chaosIndex = Some c, attacks = None\<rparr>\<rparr>"

definition factorValues :: "dashboard \<Rightarrow> (key \<times> number option) list" where
  "factorValues s = map (\<lambda>(k, f). (k, value_f f)) (chaosFactors s)"

text \<open>
  A snapshot with three attack events, the second from a code that is not in the
  table; the page with that snapshot and the sequencer at index \<open>i\<close>; the browser's
  answers to one call of \<^verbatim>\<open>animateAttack\<close>; and an animation under way.
\<close>

definition replay :: "attack list" where
  "replay = [\<lparr>from_a = ''CN'', to_a = ''US'', type_a = ''DDoS''\<rparr>,
             \<lparr>from_a = ''ZZ'', to_a = ''US'', type_a = ''Phishing''\<rparr>,
             \<lparr>from_a = ''RU'', to_a = ''DE'', type_a = ''Botnet''\<rparr>]"

definition attackPage :: "nat \<Rightarrow> dashboard" where
  "attackPage i = page\<lparr>liveData := Some \<lparr>chaosIndex = None, attacks = Some replay\<rparr>,
                       attackIndex := i\<rparr>"

definition chrome :: browser where
  "chrome = \<lparr>randomMid = 0.5, randomDuration = 0.5, dateNow = 1700000000000,
             performanceNow = 0, totalLength = 100\<rparr>"

definition flight :: animation where
  "flight = \<lparr>toCoord_v = Entry (20, 38), color_v = ''#ff6b6b'', pathLength_v = 100,
             duration_v = 1400, startTime_v = 0\<rparr>"

text \<open>A factor whose value is within one percent of its maximum.\<close>

definition nearMax :: "(key \<times> factor) list" where
  "nearMax = [(''solar'', \<lparr>weight = Some 15, value_f = Some 8.95, max_f = 9, reverse = False\<rparr>)]"

section \<open>Properties\<close>

subsection \<open>The composite score is a weighted mean\<close>

lemma weight_or_1_spec: "weight_or_1 f = spec_weight f"
  by (auto simp: weight_or_1_def spec_weight_def split: option.splits)

lemma foldl_score_step:
  "foldl score_step (t, w) fs =
     (t + (\<Sum>f\<leftarrow>filter (\<lambda>f. value_f f \<noteq> None) fs. normalized f * spec_weight f),
      w + (\<Sum>f\<leftarrow>filter (\<lambda>f. value_f f \<noteq> None) fs. spec_weight f))"
  by (induction fs arbitrary: t w)
    (auto simp: normalized_def weight_or_1_spec Let_def split: option.splits)

lemma foldl_score_step_sums:
  "foldl score_step (0, 0) (map snd cf) = (weightedSum cf, weightSum cf)"
  by (simp add: foldl_score_step weightedSum_def weightSum_def eligible_def)

lemma spec_weight_pos:
  "(\<And>w. weight f = Some w \<Longrightarrow> 0 \<le> w) \<Longrightarrow> 0 < spec_weight f"
  by (cases "weight f") (auto simp: spec_weight_def less_le)

lemma sum_list_pos:
  fixes g :: "'a \<Rightarrow> real"
  assumes "xs \<noteq> []" and pos: "\<And>x. x \<in> set xs \<Longrightarrow> 0 < g x"
  shows "0 < sum_list (map g xs)"
proof (cases xs)
  case Nil
  with assms show ?thesis by simp
next
  case (Cons a ys)
  have "0 \<le> sum_list (map g ys)"
    using pos Cons by (intro sum_list_nonneg) (auto simp: less_imp_le)
  moreover have "0 < g a" using pos Cons by simp
  ultimately show ?thesis using Cons by simp
qed

lemma localScore_sums:
  "localScore cf = (if 0 < weightSum cf then weightedSum cf / weightSum cf * 100 else 0)"
  by (simp add: localScore_def foldl_score_step_sums)

lemma localScoreJS_finite: "localScoreJS cf = Num (localScore cf)"
  by (simp add: localScoreJS_def localScore_def foldl_score_step_sums jsDiv_def)

text \<open>
  Claim C1. The locally computed score of every factor mapping whose factors
  with a defined value have a non-zero \<^verbatim>\<open>max\<close> is a finite number, never \<^verbatim>\<open>NaN\<close>:
  the quotient of line 221 is only taken with a positive divisor. With \<open>n\<close> the
  ratio \<open>value / max\<close> of a factor, or \<open>1 - value / max\<close>
  when its reverse flag is set, and a missing or zero weight counted as 1, the
  score is 100 times the sum of \<open>n * weight\<close> over the factors with a defined
  value divided by the sum of their weights when that sum is positive, and 0
  otherwise. For the data model's factors (no negative weight either) the sum
  of the weights is positive as soon as one factor has a defined value, so the
  score is the weighted mean times 100, and exactly 0 when no factor has a
  defined value. The scenario's two factors give exactly 80; four factors
  with ratios 0.8, 0.2 and 0.5, weights 20, missing and 0, and one factor
  without a value give \<open>100 * (16 + 0.2 + 0.5) / 22\<close>.
\<close>

theorem localScore_weighted_mean:
  "((\<forall>f \<in> set (eligible cf). max_f f \<noteq> 0) \<longrightarrow>
        localScoreJS cf = Num (localScore cf)
      \<and> localScore cf
          = (if 0 < weightSum cf then 100 * weightedSum cf / weightSum cf else 0))
   \<and> ((\<forall>f \<in> set (eligible cf). max_f f \<noteq> 0 \<and> (\<forall>w. weight f = Some w \<longrightarrow> 0 \<le> w)) \<longrightarrow>
        localScore cf = aggregate_spec cf \<and> localScoreJS cf = Num (aggregate_spec cf))
   \<and> (eligible cf = [] \<longrightarrow> localScore cf = 0 \<and> localScoreJS cf = Num 0)
   \<and> localScore scenario = 80
   \<and> localScore mixedWeights = 835 / 11
   \<and> localScoreJS noValues = Num 0"
proof (intro conjI impI)
  show "localScoreJS cf = Num (localScore cf)" by (rule localScoreJS_finite)
next
  show "localScore cf = (if 0 < weightSum cf then 100 * weightedSum cf / weightSum cf else 0)"
    by (simp add: localScore_sums)
next
  assume h: "\<forall>f \<in> set (eligible cf). max_f f \<noteq> 0 \<and> (\<forall>w. weight f = Some w \<longrightarrow> 0 \<le> w)"
  show m: "localScore cf = aggregate_spec cf"
  proof (cases "eligible cf = []")
    case True
    then show ?thesis
      by (simp add: localScore_sums aggregate_spec_def weightSum_def)
  next
    case False
    have "0 < weightSum cf"
      unfolding weightSum_def using False h by (intro sum_list_pos) (auto intro: spec_weight_pos)
    then show ?thesis using False
      by (simp add: localScore_sums aggregate_spec_def)
  qed
  show "localScoreJS cf = Num (aggregate_spec cf)"
    by (simp add: localScoreJS_finite m)
next
  assume e: "eligible cf = []"
  then show "localScore cf = 0"
    by (simp add: localScore_sums weightSum_def)
  then show "localScoreJS cf = Num 0"
    by (simp add: localScoreJS_finite)
next
  show "localScore scenario = 80"
    by (simp add: localScore_def scenario_def weight_or_1_def)
next
  show "localScore mixedWeights = 835 / 11"
    by (simp add: localScore_def mixedWeights_def weight_or_1_def)
next
  show "localScoreJS noValues = Num 0"
    by (simp add: localScoreJS_def noValues_def)
qed

theorem localScore_weighted_mean_witness:
  "localScore mixedWeights = aggregate_spec mixedWeights
   \<and> aggregate_spec mixedWeights = 100 * (16 + 0.2 + 0.5) / 22
   \<and> localScoreJS mixedWeights = Num (835 / 11)
   \<and> localScoreJS [] = Num 0"
proof -
  have h: "\<forall>f \<in> set (eligible mixedWeights). max_f f \<noteq> 0 \<and> (\<forall>w. weight f = Some w \<longrightarrow> 0 \<le> w)"
    by (simp add: eligible_def mixedWeights_def)
  have a: "aggregate_spec mixedWeights = 100 * (16 + 0.2 + 0.5) / 22"
    by (simp add: aggregate_spec_def weightedSum_def weightSum_def eligible_def mixedWeights_def
        normalized_def spec_weight_def)
  have e: "eligible ([] :: (key \<times> factor) list) = []" by (simp add: eligible_def)
  from localScore_weighted_mean [of mixedWeights] h a localScore_weighted_mean [of "[]"] e
  show ?thesis by simp
qed

subsection \<open>Precedence of the snapshot's index\<close>

text \<open>
  Claim C2, as amended. When the page has the score element and the snapshot
  supplies a \<^verbatim>\<open>chaosIndex\<close> other than 0, the displayed text is that index
  formatted by \<^verbatim>\<open>toFixed(1)\<close>, whatever the local factors are; when there is no
  snapshot, or the snapshot supplies no index, the displayed text is the locally
  computed score, formatted the same way. An index of 42.7 is displayed as
  \<^verbatim>\<open>42.7\<close>.
\<close>

theorem updateScore_precedence:
  "mainScore s = Some el \<longrightarrow>
     (liveData s = Some ld \<and> chaosIndex ld = Some c \<and> c \<noteq> 0
        \<longrightarrow> mainScore (updateScore s) = Some (toFixed1 c))
   \<and> (liveData s = None \<or> (\<exists>ld. liveData s = Some ld \<and> chaosIndex ld = None)
        \<longrightarrow> mainScore (updateScore s) = Some (toFixed1 (localScore (chaosFactors s))))
   \<and> toFixed1 42.7 = ''42.7''"
  by (auto simp: updateScore_def toFixed1_def digits.simps)

theorem updateScore_precedence_witness:
  "mainScore (updateScore (liveAt 42.7)) = Some ''42.7''
   \<and> mainScore (updateScore page) = Some ''80.0''"
  using updateScore_precedence
      [where s = "liveAt 42.7" and el = "''--''"
         and ld = "\<lparr>chaosIndex = Some 42.7, attacks = None\<rparr>" and c = "42.7"]
    updateScore_precedence [where s = page and el = "''--''"]
  by (simp add: liveAt_def page_def toFixed1_def digits.simps localScore_def scenario_def
      weight_or_1_def)

text \<open>
  The claim as stated fails: the display is not the supplied value itself. A
  snapshot whose index is 42.75 is displayed as \<^verbatim>\<open>42.8\<close>.
\<close>

theorem updateScore_rounds_counterexample:
  "mainScore (updateScore (liveAt 42.75)) = Some ''42.8''"
  by (simp add: updateScore_def liveAt_def page_def toFixed1_def digits.simps)

text \<open>
  An index of exactly 0 fails the truthiness test of line 206, and the page shows
  the locally computed score instead.
\<close>

lemma updateScore_zero_index:
  "mainScore (updateScore (liveAt 0)) = Some ''80.0''"
  by (simp add: updateScore_def liveAt_def page_def toFixed1_def digits.simps localScore_def
      scenario_def weight_or_1_def)

subsection \<open>Leaving simulation mode\<close>

lemma updateScore_chaosFactors: "chaosFactors (updateScore s) = chaosFactors s"
  by (simp add: updateScore_def split: option.splits)

lemma map_of_saved:
  "distinct (map fst cf) \<Longrightarrow>
   map_of (foldl (\<lambda>orig (k, f). AList.update k (value_f f) orig) acc cf) k =
     (case map_of cf k of Some f \<Rightarrow> Some (value_f f) | None \<Rightarrow> map_of acc k)"
proof (induction cf arbitrary: acc)
  case Nil
  show ?case by simp
next
  case (Cons p cf)
  obtain k' f' where p: "p = (k', f')" by (cases p)
  from Cons.prems p have d: "distinct (map fst cf)" and k': "map_of cf k' = None"
    by (auto simp: map_of_eq_None_iff)
  show ?case
    unfolding p using k' by (simp add: Cons.IH [OF d] update_conv' split: option.splits)
qed

lemma getProp_saved:
  "distinct (map fst cf) \<Longrightarrow> (k, f) \<in> set cf \<Longrightarrow>
   getProp (foldl (\<lambda>orig (k, f). AList.update k (value_f f) orig) acc cf) k = value_f f"
  by (simp add: getProp_def map_of_saved)

lemma setValues_same:
  "(\<And>k f. (k, f) \<in> set cf \<Longrightarrow> h k = value_f f) \<Longrightarrow> setValues h cf = cf"
  by (induction cf) (auto simp: setValues_def)

lemma setValues_back:
  "(\<And>k f. (k, f) \<in> set cf \<Longrightarrow> h k = value_f f) \<Longrightarrow> setValues h (setValues g cf) = cf"
  by (induction cf) (auto simp: setValues_def)

text \<open>
  A session in which no slider is moved does leave the factors as they were, and
  \<^verbatim>\<open>applySimulation\<close> is the function that commits the candidate values.
\<close>

lemma exitSimulation_untouched:
  "distinct (map fst (chaosFactors s)) \<Longrightarrow>
   chaosFactors (exitSimulation (openSimulationModal s)) = chaosFactors s"
  by (simp add: exitSimulation_def openSimulationModal_def pauseRealTimeUpdates_def
      resumeRealTimeUpdates_def Let_def updateScore_chaosFactors setValues_same getProp_saved)

lemma applySimulation_commits:
  "map_sum id factorValues (applySimulation (sliderInput ''a'' 0 (openSimulationModal page)))
     = Inr [(''a'', Some 0), (''b'', Some 10)]"
  by (simp add: factorValues_def page_def scenario_def applySimulation_def sliderInput_def
      openSimulationModal_def updateSimulationScore_def updateScore_def setValues_def getProp_def
      pauseRealTimeUpdates_def Let_def)

text \<open>
  Claim C3 does not hold of the code. The slider listener stores the candidate
  value in \<^verbatim>\<open>simulationValues\<close>, the object that \<^verbatim>\<open>openSimulationModal\<close> filled
  with the saved values, and \<^verbatim>\<open>exitSimulation\<close> copies that object back into the
  factors: after the slider of \<open>a\<close> was moved to 0, leaving simulation mode sets
  the value of \<open>a\<close> to 0, where it was 80 when the session began.
\<close>

theorem exitSimulation_overwrites:
  "factorValues page = [(''a'', Some 80), (''b'', Some 10)]
   \<and> factorValues (exitSimulation (sliderInput ''a'' 0 (openSimulationModal page)))
       = [(''a'', Some 0), (''b'', Some 10)]"
  by (simp add: factorValues_def page_def scenario_def exitSimulation_def sliderInput_def
      openSimulationModal_def updateSimulationScore_def updateScore_def setValues_def getProp_def
      pauseRealTimeUpdates_def resumeRealTimeUpdates_def Let_def)

subsection \<open>Severity thresholds\<close>

lemma getSeverity_ratio:
  "getSeverity val maxv revf =
     (if 0.75 \<le> ratio val maxv revf then ''severity-critical''
      else if 0.5 \<le> ratio val maxv revf then ''severity-high''
      else if 0.25 \<le> ratio val maxv revf then ''severity-medium''
      else ''severity-low'')"
  unfolding getSeverity_def ratio_def Let_def by (cases revf) simp_all

text \<open>
  Claim C4. For every value, every positive \<^verbatim>\<open>max\<close> and every reverse flag, with
  \<open>n\<close> the ratio \<open>value / max\<close>, or \<open>1 - value / max\<close> when the flag is set, the
  classifier returns critical exactly when \<open>n \<ge> 0.75\<close>, high exactly when
  \<open>0.5 \<le> n < 0.75\<close>, medium exactly when \<open>0.25 \<le> n < 0.5\<close>, and low exactly when
  \<open>n < 0.25\<close>. The classifier is a function of its three arguments, so equal
  inputs give equal results.
\<close>

theorem getSeverity_thresholds:
  "0 < maxv \<longrightarrow>
     (getSeverity val maxv revf = ''severity-critical'' \<longleftrightarrow> 0.75 \<le> ratio val maxv revf)
   \<and> (getSeverity val maxv revf = ''severity-high''
        \<longleftrightarrow> 0.5 \<le> ratio val maxv revf \<and> ratio val maxv revf < 0.75)
   \<and> (getSeverity val maxv revf = ''severity-medium''
        \<longleftrightarrow> 0.25 \<le> ratio val maxv revf \<and> ratio val maxv revf < 0.5)
   \<and> (getSeverity val maxv revf = ''severity-low'' \<longleftrightarrow> ratio val maxv revf < 0.25)"
proof -
  define n where "n = ratio val maxv revf"
  have "getSeverity val maxv revf =
     (if 0.75 \<le> n then ''severity-critical''
      else if 0.5 \<le> n then ''severity-high''
      else if 0.25 \<le> n then ''severity-medium''
      else ''severity-low'')"
    unfolding n_def by (rule getSeverity_ratio)
  then show ?thesis unfolding n_def [symmetric] by auto
qed

theorem getSeverity_thresholds_witness:
  "getSeverity 80 100 False = ''severity-critical''
   \<and> getSeverity 10 50 True = ''severity-critical''
   \<and> getSeverity 30 100 False = ''severity-medium''
   \<and> getSeverity 60 100 True = ''severity-medium''"
  using getSeverity_thresholds [of 100 80 False] getSeverity_thresholds [of 50 10 True]
    getSeverity_thresholds [of 100 30 False] getSeverity_thresholds [of 100 60 True]
  by (simp add: ratio_def)

subsection \<open>The perturbation stays in range\<close>

lemma perturb_in_range: "in_range f \<Longrightarrow> in_range (perturb r f)"
  by (auto simp: perturb_def in_range_def Let_def split: option.splits)

lemma perturb_frame:
  "max_f (perturb r f) = max_f f \<and> weight (perturb r f) = weight f
   \<and> reverse (perturb r f) = reverse f
   \<and> (value_f (perturb r f) = None \<longleftrightarrow> value_f f = None)"
  by (auto simp: perturb_def Let_def split: option.splits)

lemma manipulateData_nth:
  "i < length cf \<Longrightarrow>
   manipulateData rnd cf ! i = (fst (cf ! i), perturb (rnd (fst (cf ! i))) (snd (cf ! i)))"
  by (simp add: manipulateData_def case_prod_unfold)

lemma manipulateData_length: "length (manipulateData rnd cf) = length cf"
  by (simp add: manipulateData_def)

text \<open>
  With a draw \<open>r\<close> in \<open>[0, 1)\<close>, as \<^verbatim>\<open>Math.random()\<close> returns, one application moves
  a value that is in range by at most one percent of the maximum.
\<close>

lemma perturb_delta:
  assumes "0 \<le> r" "r < 1" "0 < max_f f" "value_f f = Some v" "0 \<le> v" "v \<le> max_f f"
  shows "\<exists>v'. value_f (perturb r f) = Some v' \<and> \<bar>v' - v\<bar> \<le> max_f f / 100"
proof -
  define d where "d = (r - 0.5) * (max_f f * 0.02)"
  have "\<bar>r - 0.5\<bar> \<le> 1 / 2" using assms(1,2) by linarith
  then have "\<bar>r - 0.5\<bar> * (max_f f * 0.02) \<le> 1 / 2 * (max_f f * 0.02)"
    using assms(3) by (intro mult_right_mono) simp_all
  then have d: "\<bar>d\<bar> \<le> max_f f / 100"
    using assms(3) by (simp add: d_def abs_mult)
  have "value_f (perturb r f) = Some (max 0 (min (max_f f) (v + d)))"
    using assms(4) by (simp add: perturb_def d_def)
  moreover have "\<bar>max 0 (min (max_f f) (v + d)) - v\<bar> \<le> max_f f / 100"
    using d assms(5,6) by (auto simp: abs_le_iff min_def max_def)
  ultimately show ?thesis by blast
qed

text \<open>
  Claim C5. A factor of the mapping whose value, if defined, lies in \<open>[0, max]\<close>
  still has its value in \<open>[0, max]\<close> after any number of successive applications
  of the perturbation, whatever the random draws are; the factor keeps its key,
  its \<^verbatim>\<open>max\<close> and whether its value is defined.
\<close>

theorem manipulateTimes_in_range:
  "i < length cf \<and> in_range (snd (cf ! i)) \<longrightarrow>
     length (manipulateTimes rnds cf) = length cf
   \<and> fst (manipulateTimes rnds cf ! i) = fst (cf ! i)
   \<and> max_f (snd (manipulateTimes rnds cf ! i)) = max_f (snd (cf ! i))
   \<and> (value_f (snd (manipulateTimes rnds cf ! i)) = None \<longleftrightarrow> value_f (snd (cf ! i)) = None)
   \<and> in_range (snd (manipulateTimes rnds cf ! i))"
proof (induction rnds arbitrary: cf)
  case Nil
  show ?case by simp
next
  case (Cons rnd rnds)
  show ?case
  proof
    assume h: "i < length cf \<and> in_range (snd (cf ! i))"
    let ?cf = "manipulateData rnd cf"
    from h have n: "?cf ! i = (fst (cf ! i), perturb (rnd (fst (cf ! i))) (snd (cf ! i)))"
      by (simp add: manipulateData_nth)
    from h have "i < length ?cf \<and> in_range (snd (?cf ! i))"
      by (simp add: n manipulateData_length perturb_in_range)
    with Cons.IH [of ?cf]
    have "length (manipulateTimes rnds ?cf) = length ?cf
      \<and> fst (manipulateTimes rnds ?cf ! i) = fst (?cf ! i)
      \<and> max_f (snd (manipulateTimes rnds ?cf ! i)) = max_f (snd (?cf ! i))
      \<and> (value_f (snd (manipulateTimes rnds ?cf ! i)) = None \<longleftrightarrow> value_f (snd (?cf ! i)) = None)
      \<and> in_range (snd (manipulateTimes rnds ?cf ! i))"
      by blast
    then show "length (manipulateTimes (rnd # rnds) cf) = length cf
      \<and> fst (manipulateTimes (rnd # rnds) cf ! i) = fst (cf ! i)
      \<and> max_f (snd (manipulateTimes (rnd # rnds) cf ! i)) = max_f (snd (cf ! i))
      \<and> (value_f (snd (manipulateTimes (rnd # rnds) cf ! i)) = None
           \<longleftrightarrow> value_f (snd (cf ! i)) = None)
      \<and> in_range (snd (manipulateTimes (rnd # rnds) cf ! i))"
      by (simp add: n manipulateData_length perturb_frame)
  qed
qed

theorem manipulateTimes_in_range_witness:
  "map (value_f \<circ> snd) (manipulateTimes [\<lambda>k. 0.99] nearMax) = [Some 9]
   \<and> in_range (snd (manipulateTimes [\<lambda>k. 0.99, \<lambda>k. 0, \<lambda>k. 0.75] nearMax ! 0))"
proof -
  have "0 < length nearMax \<and> in_range (snd (nearMax ! 0))"
    by (simp add: nearMax_def in_range_def)
  with manipulateTimes_in_range [of 0 nearMax "[\<lambda>k. 0.99, \<lambda>k. 0, \<lambda>k. 0.75]"]
  have "in_range (snd (manipulateTimes [\<lambda>k. 0.99, \<lambda>k. 0, \<lambda>k. 0.75] nearMax ! 0))" by blast
  moreover have "map (value_f \<circ> snd) (manipulateTimes [\<lambda>k. 0.99] nearMax) = [Some 9]"
    by (simp add: nearMax_def manipulateData_def perturb_def)
  ultimately show ?thesis by simp
qed

subsection \<open>One frame of the attack animation\<close>

text \<open>
  Claim C6, as amended. On every frame of an animation with a positive duration,
  with \<open>t\<close> the elapsed share of the duration capped at 1 and \<open>eased\<close> equal to
  \<open>4t\<^sup>3\<close> for \<open>t < 0.5\<close> and to \<open>1 - (-2t + 2)\<^sup>3 / 2\<close> otherwise, the dash offset of
  the path is \<open>pathLength * (1 - eased)\<close>, the lead particle is at arc length
  \<open>pathLength * eased\<close>, and there are five trailing particles, the one at
  position \<open>i\<close> of the array (counted from 0) at arc length
  \<open>pathLength * max 0 (eased - (i + 1) * 0.03)\<close>.
\<close>

theorem animate_frame:
  "0 < duration_v a \<longrightarrow>
     (let t = min ((currentTime - startTime_v a) / duration_v a) 1;
          eased = (if t < 1 / 2 then 4 * t ^ 3 else 1 - (- 2 * t + 2) ^ 3 / 2);
          fr = animate a currentTime
      in strokeDashoffset fr = pathLength_v a * (1 - eased)
         \<and> particleAt fr = pathLength_v a * eased
         \<and> length (trailsAt fr) = 5
         \<and> (\<forall>i < 5. trailsAt fr ! i = pathLength_v a * max 0 (eased - (real i + 1) * 0.03)))"
  by (simp add: animate_def progressAt_def easeInOutCubic_def trailCount_def Let_def
      power3_eq_cube algebra_simps)

theorem animate_frame_witness:
  "strokeDashoffset (animate flight 700) = 50 \<and> particleAt (animate flight 700) = 50
   \<and> trailsAt (animate flight 700) = [47, 44, 41, 38, 35]"
  using animate_frame [of flight 700]
  by (simp add: flight_def Let_def animate_def progressAt_def easeInOutCubic_def trailCount_def
      upt_rec)

text \<open>
  The claim as stated, with the offset \<open>i * 0.03\<close> for the trail at index \<open>i\<close>, fails
  for the first trail: at the end of the traversal \<open>eased\<close> is 1 and the first
  trail is at arc length 97 of a path of length 100, not at 100 with the lead
  particle.
\<close>

theorem animate_trail_counterexample:
  "easeInOutCubic (progressAt flight 1400) = 1
   \<and> trailsAt (animate flight 1400) ! 0 = 97
   \<and> pathLength_v flight * max 0 (easeInOutCubic (progressAt flight 1400) - 0 * 0.03) = 100"
  by (simp add: animate_def flight_def progressAt_def easeInOutCubic_def trailCount_def Let_def)

subsection \<open>Events with a code outside the table\<close>

lemma animateAttack_drop:
  assumes "liveData s = Some ld" "attacks ld = Some evs" "evs \<noteq> []"
    and "coordOf (from_a (evs ! (attackIndex s mod length evs))) = None
         \<or> coordOf (to_a (evs ! (attackIndex s mod length evs))) = None"
  shows "animateAttack b s = s\<lparr>attackIndex := attackIndex s + 1\<rparr>"
  using assms by (auto simp: animateAttack_def Let_def split: option.splits)

lemma animateAttack_index:
  assumes "liveData s = Some ld" "attacks ld = Some evs" "evs \<noteq> []"
  shows "attackIndex (animateAttack b s) = attackIndex s + 1
         \<and> liveData (animateAttack b s) = liveData s"
  using assms by (simp add: animateAttack_def Let_def split: option.splits prod.splits)

lemma nextAttack_Some:
  "nextAttack s = Some ev \<longleftrightarrow>
     (\<exists>ld evs. liveData s = Some ld \<and> attacks ld = Some evs \<and> evs \<noteq> []
        \<and> ev = evs ! (attackIndex s mod length evs))"
  by (auto simp: nextAttack_def split: option.splits)

lemma nextAttack_replay_1:
  "nextAttack (attackPage 1) = Some \<lparr>from_a = ''ZZ'', to_a = ''US'', type_a = ''Phishing''\<rparr>"
  by (simp add: nextAttack_def attackPage_def page_def replay_def)

lemma ZZ_not_in_table: "''ZZ'' \<notin> set (map fst countryCoords)"
  by (simp add: countryCoords_def)

lemma coordOf_ZZ: "coordOf ''ZZ'' = None"
  by (simp add: coordOf_def countryCoords_def objectPrototypeNames_def)

lemma two_letters_not_inherited: "length code = 2 \<Longrightarrow> code \<notin> set objectPrototypeNames"
  by (auto simp: objectPrototypeNames_def)

lemma coordOf_None:
  "length code = 2 \<Longrightarrow> code \<notin> set (map fst countryCoords) \<Longrightarrow> coordOf code = None"
  by (simp add: coordOf_def two_letters_not_inherited map_of_eq_None_iff [THEN iffD2])

text \<open>
  Claim C7. When the event that \<^verbatim>\<open>animateAttack\<close> reads has a two-letter
  \<^verbatim>\<open>from\<close> or \<^verbatim>\<open>to\<close> code that is not a key of the coordinate table, the call
  returns normally and changes nothing but the sequencer's index: no element is
  added to the overlay and no \<^verbatim>\<open>animate\<close> callback is registered, so no animation
  leaves the queued state. (Up to line 285 the function reads two properties of
  the event and two of the table, none of which can raise. Country codes have two
  letters; a longer name such as \<^verbatim>\<open>constructor\<close> is not a key of the table and yet
  is found by the property read, see \<open>animateAttack_inherited_name\<close> below.)
\<close>

theorem animateAttack_unmapped_noop:
  "nextAttack s = Some ev \<and> length (from_a ev) = 2 \<and> length (to_a ev) = 2
     \<and> (from_a ev \<notin> set (map fst countryCoords) \<or> to_a ev \<notin> set (map fst countryCoords))
   \<longrightarrow> animateAttack b s = s\<lparr>attackIndex := attackIndex s + 1\<rparr>"
proof
  assume h: "nextAttack s = Some ev \<and> length (from_a ev) = 2 \<and> length (to_a ev) = 2
     \<and> (from_a ev \<notin> set (map fst countryCoords) \<or> to_a ev \<notin> set (map fst countryCoords))"
  then obtain ld evs where s: "liveData s = Some ld" "attacks ld = Some evs" "evs \<noteq> []"
      and ev: "ev = evs ! (attackIndex s mod length evs)"
    unfolding nextAttack_Some by blast
  from h have l: "length (from_a ev) = 2" "length (to_a ev) = 2" by simp_all
  from h have "from_a ev \<notin> set (map fst countryCoords) \<or> to_a ev \<notin> set (map fst countryCoords)"
    by simp
  then have "coordOf (from_a ev) = None \<or> coordOf (to_a ev) = None"
  proof
    assume "from_a ev \<notin> set (map fst countryCoords)"
    then show ?thesis by (simp add: coordOf_None [OF l(1)])
  next
    assume "to_a ev \<notin> set (map fst countryCoords)"
    then show ?thesis by (simp add: coordOf_None [OF l(2)])
  qed
  then show "animateAttack b s = s\<lparr>attackIndex := attackIndex s + 1\<rparr>"
    unfolding ev by (rule animateAttack_drop [OF s])
qed

theorem animateAttack_unmapped_noop_witness:
  "animateAttack chrome (attackPage 1) = attackPage 2"
  using animateAttack_unmapped_noop
      [of "attackPage 1" "\<lparr>from_a = ''ZZ'', to_a = ''US'', type_a = ''Phishing''\<rparr>" chrome]
    nextAttack_replay_1 ZZ_not_in_table
  by (simp add: attackPage_def)

text \<open>
  An event whose \<^verbatim>\<open>from\<close> is \<^verbatim>\<open>constructor\<close> passes the test of line 285 and the
  eight elements are appended, the path with coordinates that are not numbers.
\<close>

lemma animateAttack_inherited_name:
  "attackOverlay (animateAttack chrome
     (page\<lparr>liveData := Some \<lparr>chaosIndex = None, attacks =
        Some [\<lparr>from_a = ''constructor'', to_a = ''US'', type_a = ''DDoS''\<rparr>]\<rparr>\<rparr>))
   = Some [Filter 1700000000000,
           Path (None, None) (None, None) (Some 20, Some 38) ''#ff6b6b'',
           Circle 0.8 ''#ff6b6b'' None,
           Circle 0.6 ''#ff6b6b'' (Some 0.6), Circle 0.5 ''#ff6b6b'' (Some 0.5),
           Circle 0.4 ''#ff6b6b'' (Some 0.4), Circle 0.3 ''#ff6b6b'' (Some 0.3),
           Circle 0.2 ''#ff6b6b'' (Some 0.2)]"
  by (simp add: animateAttack_def page_def chrome_def coordOf_def countryCoords_def
      objectPrototypeNames_def getAttackColor_def trailCount_def upt_rec Let_def)

subsection \<open>The simulated score\<close>

text \<open>
  \<^verbatim>\<open>updateSimulationScore\<close> leaves every factor as it found it, and on a page
  without a snapshot it shows the score of the overlay values.
\<close>

lemma updateSimulationScore_restores:
  "distinct (map fst (chaosFactors s)) \<Longrightarrow>
   chaosFactors (updateSimulationScore s) = chaosFactors s"
  by (simp add: updateSimulationScore_def Let_def updateScore_chaosFactors setValues_back
      getProp_saved)

lemma updateSimulationScore_local:
  "mainScore s = Some el \<Longrightarrow> liveData s = None \<Longrightarrow>
   mainScore (updateSimulationScore s) =
     Some (toFixed1 (localScore (setValues (getProp (simulationValues s)) (chaosFactors s))))"
  by (simp add: updateSimulationScore_def Let_def updateScore_def)

text \<open>
  Claim C8 does not hold of the code. \<^verbatim>\<open>updateSimulationScore\<close> puts the overlay
  values into the factors and calls \<^verbatim>\<open>updateScore\<close>, which shows the snapshot's
  index whenever the snapshot supplies one: with an index of 42.7 the page shows
  \<^verbatim>\<open>42.7\<close>, where the overlay that sets \<open>a\<close> to 0 gives a score of \<^verbatim>\<open>26.7\<close>.
\<close>

theorem updateSimulationScore_shows_live_index:
  "mainScore (updateSimulationScore
       ((liveAt 42.7)\<lparr>simulationValues := [(''a'', Some 0), (''b'', Some 10)]\<rparr>)) = Some ''42.7''
   \<and> toFixed1 (localScore (setValues (getProp [(''a'', Some 0), (''b'', Some 10)]) scenario))
       = ''26.7''"
  by (simp add: liveAt_def page_def scenario_def updateSimulationScore_def updateScore_def
      setValues_def getProp_def Let_def toFixed1_def digits.simps localScore_def weight_or_1_def)

subsection \<open>Contributions sum to 100 percent\<close>

lemma eligibleEntries_Cons:
  "eligibleEntries ((k, f) # cf) =
     (if value_f f = None then eligibleEntries cf else (k, f) # eligibleEntries cf)"
  by (simp add: eligibleEntries_def)

lemma eligible_entries: "eligible cf = map snd (eligibleEntries cf)"
  by (induction cf) (auto simp: eligible_def eligibleEntries_def)

lemma impact_step_term:
  "impact_step key (t, m) (k, f) =
     (if value_f f = None then (t, m)
      else (t + weightedTerm f, if k = key then weightedTerm f else m))"
  by (simp add: weightedTerm_def normalized_def Let_def split: option.splits)

lemma foldl_impact_step:
  "distinct (map fst cf) \<Longrightarrow>
   foldl (impact_step key) (t, m) cf =
     (t + (\<Sum>(k, f)\<leftarrow>eligibleEntries cf. weightedTerm f),
      case map_of (eligibleEntries cf) key of None \<Rightarrow> m | Some f \<Rightarrow> weightedTerm f)"
proof (induction cf arbitrary: t m)
  case Nil
  show ?case by (simp add: eligibleEntries_def)
next
  case (Cons p cf)
  obtain k f where p: "p = (k, f)" by (cases p)
  from Cons.prems p have d: "distinct (map fst cf)" and k: "k \<notin> fst ` set cf" by auto
  have "k \<notin> fst ` set (eligibleEntries cf)"
    using k by (auto simp: eligibleEntries_def)
  then have none: "map_of (eligibleEntries cf) k = None"
    by (simp add: map_of_eq_None_iff)
  show ?case
    unfolding p using none
    by (auto simp: impact_step_term Cons.IH [OF d] eligibleEntries_Cons
        simp del: impact_step.simps)
qed

lemma totalWeighted_alt:
  "totalWeighted cf = (\<Sum>(k, f)\<leftarrow>eligibleEntries cf. weightedTerm f)"
  unfolding totalWeighted_def eligible_entries
  by (simp add: comp_def case_prod_unfold)

lemma impactPercent_eligible:
  assumes d: "distinct (map fst cf)" and kf: "(k, f) \<in> set (eligibleEntries cf)"
    and pos: "0 < totalWeighted cf"
  shows "impactPercent cf k = Some (weightedTerm f / totalWeighted cf * 100)"
proof -
  have "(k, f) \<in> set cf" using kf by (simp add: eligibleEntries_def)
  then have 1: "map_of cf k = Some f" using d by simp
  have "distinct (map fst (eligibleEntries cf))"
    unfolding eligibleEntries_def using d by (rule distinct_map_filter)
  then have 2: "map_of (eligibleEntries cf) k = Some f" using kf by simp
  show ?thesis
    using pos by (simp add: impactPercent_def 1 2 foldl_impact_step [OF d] totalWeighted_alt)
qed

lemma sum_list_percent:
  fixes g :: "'a \<Rightarrow> real"
  shows "(\<Sum>x\<leftarrow>xs. g x / c * 100) = (\<Sum>x\<leftarrow>xs. g x) / c * 100"
  by (induction xs) (simp_all add: add_divide_distrib distrib_right)

lemma sum_list_contributions:
  assumes d: "distinct (map fst cf)" and pos: "0 < totalWeighted cf"
  shows "sum_list (contributions cf) = 100"
proof -
  have "contributions cf =
        map (\<lambda>p. weightedTerm (snd p) / totalWeighted cf * 100) (eligibleEntries cf)"
    unfolding contributions_def
    by (rule map_cong [OF refl]) (auto simp: impactPercent_eligible [OF d _ pos])
  then have "sum_list (contributions cf) =
       (\<Sum>p\<leftarrow>eligibleEntries cf. weightedTerm (snd p)) / totalWeighted cf * 100"
    by (simp only: sum_list_percent)
  also have "(\<Sum>p\<leftarrow>eligibleEntries cf. weightedTerm (snd p)) = totalWeighted cf"
    by (simp add: totalWeighted_alt case_prod_unfold)
  finally show ?thesis using pos by simp
qed

text \<open>
  Claim C9. For a factor mapping (each key once) whose factors with a defined
  value have a non-zero \<^verbatim>\<open>max\<close> and whose total weighted sum is positive, the
  percentage \<^verbatim>\<open>showInfoCard\<close> computes for a factor with a defined value is its
  weighted term \<open>n * weight\<close> divided by the total weighted sum, times 100, and
  the percentages of all these factors sum to 100 (in exact arithmetic).
\<close>

theorem contributions_sum_100:
  "distinct (map fst cf) \<and> (\<forall>f \<in> set (eligible cf). max_f f \<noteq> 0) \<and> 0 < totalWeighted cf \<longrightarrow>
     sum_list (contributions cf) = 100
   \<and> (\<forall>(k, f) \<in> set (eligibleEntries cf).
         impactPercent cf k = Some (weightedTerm f / totalWeighted cf * 100))"
  using sum_list_contributions [of cf] impactPercent_eligible [of cf]
  by auto

theorem contributions_sum_100_witness:
  "contributions scenario = [200 / 3, 100 / 3] \<and> sum_list (contributions scenario) = 100"
proof -
  have d: "distinct (map fst scenario)" by (simp add: scenario_def)
  have m: "\<forall>f \<in> set (eligible scenario). max_f f \<noteq> 0" by (simp add: scenario_def eligible_def)
  have t: "totalWeighted scenario = 24"
    by (simp add: totalWeighted_def scenario_def eligible_def weightedTerm_def normalized_def
        weight_or_1_def)
  have e: "eligibleEntries scenario = scenario" by (simp add: eligibleEntries_def scenario_def)
  from contributions_sum_100 [of scenario] d m t
  have s: "sum_list (contributions scenario) = 100"
    and i: "\<forall>(k, f) \<in> set scenario. impactPercent scenario k = Some (weightedTerm f / 24 * 100)"
    unfolding e by simp_all
  have "contributions scenario = [200 / 3, 100 / 3]"
    using i unfolding contributions_def e
    by (simp add: scenario_def weightedTerm_def normalized_def weight_or_1_def)
  with s show ?thesis by simp
qed

subsection \<open>The sequencer's cyclic index\<close>

text \<open>
  Claim C10. With a non-empty event list, every call of \<^verbatim>\<open>animateAttack\<close> adds
  exactly one to the cyclic index, before the two codes are looked up: the next
  call reads the event that follows in the cycle, and when a code of the event
  just read has no coordinates, this call adds nothing to the overlay and
  registers no animation.
\<close>

theorem animateAttack_advances:
  "liveData s = Some ld \<and> attacks ld = Some evs \<and> evs \<noteq> [] \<longrightarrow>
     attackIndex (animateAttack b s) = attackIndex s + 1
   \<and> nextAttack (animateAttack b s) = Some (evs ! ((attackIndex s + 1) mod length evs))
   \<and> (coordOf (from_a (evs ! (attackIndex s mod length evs))) = None
        \<or> coordOf (to_a (evs ! (attackIndex s mod length evs))) = None
      \<longrightarrow> attackOverlay (animateAttack b s) = attackOverlay s
          \<and> frameCallbacks (animateAttack b s) = frameCallbacks s)"
proof (intro impI conjI)
  assume h: "liveData s = Some ld \<and> attacks ld = Some evs \<and> evs \<noteq> []"
  then have s: "liveData s = Some ld" "attacks ld = Some evs" "evs \<noteq> []" by simp_all
  note i = animateAttack_index [OF s, of b]
  from i show "attackIndex (animateAttack b s) = attackIndex s + 1" by simp
  from i s show "nextAttack (animateAttack b s) = Some (evs ! ((attackIndex s + 1) mod length evs))"
    by (simp add: nextAttack_def)
  assume d: "coordOf (from_a (evs ! (attackIndex s mod length evs))) = None
        \<or> coordOf (to_a (evs ! (attackIndex s mod length evs))) = None"
  show "attackOverlay (animateAttack b s) = attackOverlay s"
    by (simp add: animateAttack_drop [OF s d])
  show "frameCallbacks (animateAttack b s) = frameCallbacks s"
    by (simp add: animateAttack_drop [OF s d])
qed

theorem animateAttack_advances_witness:
  "attackIndex (animateAttack chrome (attackPage 1)) = 2
   \<and> nextAttack (animateAttack chrome (attackPage 1))
       = Some \<lparr>from_a = ''RU'', to_a = ''DE'', type_a = ''Botnet''\<rparr>
   \<and> attackOverlay (animateAttack chrome (attackPage 1)) = Some []
   \<and> frameCallbacks (animateAttack chrome (attackPage 1)) = []"
  using animateAttack_advances
      [of "attackPage 1" "\<lparr>chaosIndex = None, attacks = Some replay\<rparr>" replay chrome]
    coordOf_ZZ
  by (simp add: attackPage_def page_def replay_def)

end
